theory Spec2Isabelle
  imports Complex_Main
begin

section \<open>Values of the relay: JSON, Python strings, exceptions\<close>

text \<open>
  The relay (\<^verbatim>\<open>src/app.py\<close>) handles untyped JSON: the inbound payload and the
  backend's responses. A JSON value after parsing is one of Python's \<^verbatim>\<open>None\<close>,
  \<^verbatim>\<open>bool\<close>, \<^verbatim>\<open>int\<close>, \<^verbatim>\<open>float\<close>, \<^verbatim>\<open>str\<close>, \<^verbatim>\<open>list\<close> and \<^verbatim>\<open>dict\<close>.
  A \<^verbatim>\<open>dict\<close> is an association list read with \<open>map_of\<close>. A finite float is carried
  as the rational it denotes: the relay never computes with one, it only tests it for
  zero and compares it for equality. A character is a code point below 256.
\<close>

datatype json =
    JNull
  | JBool bool
  | JInt int
  | JFloat rat
  | JStr string
  | JList "json list"
  | JObj "(string \<times> json) list"

text \<open>The exceptions the relay's own statements can raise; all derive from \<^verbatim>\<open>Exception\<close>.\<close>

datatype py_error =
    AttributeError
  | TypeError
  | RequestException
  | JSONDecodeError

text \<open>Truth value of a Python object, as \<^verbatim>\<open>or\<close>, \<^verbatim>\<open>and\<close>, \<^verbatim>\<open>not\<close> and \<^verbatim>\<open>if\<close> test it.\<close>

fun truthy :: "json \<Rightarrow> bool" where
  "truthy JNull = False"
| "truthy (JBool b) = b"
| "truthy (JInt i) = (i \<noteq> 0)"
| "truthy (JFloat r) = (r \<noteq> 0)"
| "truthy (JStr s) = (s \<noteq> [])"
| "truthy (JList xs) = (xs \<noteq> [])"
| "truthy (JObj kvs) = (kvs \<noteq> [])"

text \<open>\<^verbatim>\<open>x.get(k)\<close>: the value or \<^verbatim>\<open>None\<close> on a dict, \<^verbatim>\<open>AttributeError\<close> on anything else.\<close>

definition dict_get :: "(string \<times> json) list \<Rightarrow> string \<Rightarrow> json" where
  "dict_get kvs k = (case map_of kvs k of None \<Rightarrow> JNull | Some v \<Rightarrow> v)"

fun py_get :: "json \<Rightarrow> string \<Rightarrow> py_error + json" where
  "py_get (JObj kvs) k = Inr (dict_get kvs k)"
| "py_get _ k = Inl AttributeError"

fun isinstance_dict :: "json \<Rightarrow> bool" where
  "isinstance_dict (JObj kvs) = True"
| "isinstance_dict _ = False"

subsection \<open>\<^verbatim>\<open>str.strip\<close>, \<^verbatim>\<open>str.lower\<close>, \<^verbatim>\<open>str.join\<close>, \<^verbatim>\<open>xs[-8:]\<close>\<close>

text \<open>\<^verbatim>\<open>str.isspace\<close> on the code points below 256.\<close>

definition isspace :: "char \<Rightarrow> bool" where
  "isspace c =
     (let n = (of_char c :: nat)
      in (9 \<le> n \<and> n \<le> 13) \<or> (28 \<le> n \<and> n \<le> 32) \<or> n = 133 \<or> n = 160)"

definition strip :: "string \<Rightarrow> string" where
  "strip s = rev (dropWhile isspace (rev (dropWhile isspace s)))"

definition lower_char :: "char \<Rightarrow> char" where
  "lower_char c =
     (let n = (of_char c :: nat)
      in if (65 \<le> n \<and> n \<le> 90) \<or> (192 \<le> n \<and> n \<le> 222 \<and> n \<noteq> 215)
         then char_of (n + 32) else c)"

definition lower :: "string \<Rightarrow> string" where
  "lower s = map lower_char s"

fun join :: "string \<Rightarrow> string list \<Rightarrow> string" where
  "join sep [] = []"
| "join sep [p] = p"
| "join sep (p # q # ps) = p @ sep @ join sep (q # ps)"

text \<open>\<^verbatim>\<open>xs[-8:]\<close>: the last eight elements, or all of them when there are fewer.\<close>

definition last8 :: "'a list \<Rightarrow> 'a list" where
  "last8 xs = drop (length xs - 8) xs"

section \<open>Payload normalizer: \<^verbatim>\<open>_extract_message_text\<close>\<close>

definition candidates :: "string list" where
  "candidates =
     [''text'', ''message'', ''body'', ''MESSAGE'', ''MESSAGE-TEXT'', ''message-text'',
      ''content'']"

text \<open>
  The loop \<^verbatim>\<open>for k in candidates: v = d.get(k); if isinstance(v, str) and v.strip():
  return v\<close>. \<open>Some v\<close> is the \<^verbatim>\<open>return v\<close>, \<open>None\<close> is the loop running to its end.
\<close>

fun probe :: "string list \<Rightarrow> json \<Rightarrow> py_error + string option" where
  "probe [] d = Inr None"
| "probe (k # ks) d =
     (case py_get d k of
        Inl e \<Rightarrow> Inl e
      | Inr (JStr v) \<Rightarrow> if strip v \<noteq> [] then Inr (Some v) else probe ks d
      | Inr _ \<Rightarrow> probe ks d)"

text \<open>The loop over the wrapper keys, each probed one level deep when it holds a dict.\<close>

fun probe_wrappers :: "string list \<Rightarrow> json \<Rightarrow> py_error + string option" where
  "probe_wrappers [] payload = Inr None"
| "probe_wrappers (wrapper # ws) payload =
     (case py_get payload wrapper of
        Inl e \<Rightarrow> Inl e
      | Inr inner \<Rightarrow>
          if isinstance_dict inner then
            (case probe candidates inner of
               Inl e \<Rightarrow> Inl e
             | Inr (Some v) \<Rightarrow> Inr (Some v)
             | Inr None \<Rightarrow> probe_wrappers ws payload)
          else probe_wrappers ws payload)"

definition extract_message_text :: "json \<Rightarrow> py_error + string" where
  "extract_message_text payload =
     (case probe candidates payload of
        Inl e \<Rightarrow> Inl e
      | Inr (Some v) \<Rightarrow> Inr v
      | Inr None \<Rightarrow>
          (case probe_wrappers [''data'', ''payload''] payload of
             Inl e \<Rightarrow> Inl e
           | Inr (Some v) \<Rightarrow> Inr v
           | Inr None \<Rightarrow> Inr []))"

section \<open>Response text: \<^verbatim>\<open>_extract_ai_text\<close>\<close>

text \<open>
  The body of the \<^verbatim>\<open>if isinstance(choices, list) and choices\<close> block, for the first
  choice: the chat shape first, then the completions shape. \<open>None\<close> is falling out of
  the block.
\<close>

definition choice_text_field :: "(string \<times> json) list \<Rightarrow> string option" where
  "choice_text_field ch0 =
     (case dict_get ch0 ''text'' of JStr s \<Rightarrow> Some (strip s) | _ \<Rightarrow> None)"

fun choice_text :: "json \<Rightarrow> string option" where
  "choice_text (JObj ch0) =
     (case dict_get ch0 ''message'' of
        JObj msg \<Rightarrow>
          (case dict_get msg ''content'' of
             JStr s \<Rightarrow> Some (strip s)
           | _ \<Rightarrow> choice_text_field ch0)
      | _ \<Rightarrow> choice_text_field ch0)"
| "choice_text _ = None"

text \<open>The body of the \<^verbatim>\<open>try\<close>: \<open>Inl\<close> an exception, \<open>Inr None\<close> no \<^verbatim>\<open>return\<close> reached.\<close>

definition extract_ai_text_try :: "json \<Rightarrow> py_error + string option" where
  "extract_ai_text_try result =
     (case py_get result ''choices'' of
        Inl e \<Rightarrow> Inl e
      | Inr choices \<Rightarrow>
          (case (case choices of JList (ch0 # rest) \<Rightarrow> choice_text ch0 | _ \<Rightarrow> None) of
             Some s \<Rightarrow> Inr (Some s)
           | None \<Rightarrow>
               (case py_get result ''content'' of
                  Inl e \<Rightarrow> Inl e
                | Inr (JStr s) \<Rightarrow> Inr (Some (strip s))
                | Inr _ \<Rightarrow> Inr None)))"

definition extract_ai_text :: "json \<Rightarrow> string" where
  "extract_ai_text result =
     (case extract_ai_text_try result of
        Inl e \<Rightarrow> []
      | Inr None \<Rightarrow> []
      | Inr (Some s) \<Rightarrow> s)"

section \<open>Prompt linearization: \<^verbatim>\<open>_messages_to_prompt\<close>\<close>

text \<open>A chat message is a \<^verbatim>\<open>Dict[str, str]\<close>, here with the keys \<^verbatim>\<open>role\<close> and \<^verbatim>\<open>content\<close>.\<close>

type_synonym message = "(string \<times> string) list"

definition turn :: "string \<Rightarrow> string \<Rightarrow> message" where
  "turn r c = [(''role'', r), (''content'', c)]"

text \<open>The loop over \<^verbatim>\<open>messages[-8:]\<close>, appending to \<^verbatim>\<open>parts\<close>.\<close>

fun prompt_parts :: "message list \<Rightarrow> string list \<Rightarrow> string list" where
  "prompt_parts [] parts = parts"
| "prompt_parts (m # ms) parts =
     (let role = map_of m ''role'';
          content = strip (case map_of m ''content'' of None \<Rightarrow> [] | Some c \<Rightarrow> c)
      in if content = [] then prompt_parts ms parts
         else if role = Some ''user'' then prompt_parts ms (parts @ [''User: '' @ content])
         else if role = Some ''assistant''
           then prompt_parts ms (parts @ [''Assistant: '' @ content])
         else prompt_parts ms (parts @ [content]))"

definition messages_to_prompt :: "message list \<Rightarrow> string" where
  "messages_to_prompt messages =
     join [CHR 0x0A] (prompt_parts (last8 messages) [] @ [''Assistant:''])"

section \<open>Configuration, conversation store, backend\<close>

text \<open>
  The module constants the relay reads, fixed at start-up. \<open>ALLOWED_JIDS\<close> is the set
  the environment variable was parsed into. Host, port and the request timeout only
  select the backend and bound a call: the three URLs are the values of \<open>endpoint\<close>, and a
  call that times out is a call that fails.
\<close>

record config =
  LM_STUDIO_MODEL :: string
  LM_TEMPERATURE :: rat
  LM_MAX_TOKENS :: int
  ALLOWED_JIDS :: "string set"

datatype endpoint = Models_URL | LM_STUDIO_URL | LM_STUDIO_COMPLETIONS_URL

datatype http_call = Get endpoint | Post endpoint json

text \<open>
  What a call meets: no response at all (connection refused, timeout), or a status with
  a body that is JSON or not.
\<close>

datatype http_outcome = Unreachable | Response nat "json option"

text \<open>
  The backend is outside the program: any function from the calls made so far, the
  current one last, to what the current one meets.
\<close>

type_synonym backend = "http_call list \<Rightarrow> http_outcome"

text \<open>
  A key of the dict \<open>conversations\<close>. Python hashes \<^verbatim>\<open>True\<close>, \<^verbatim>\<open>1\<close> and \<^verbatim>\<open>1.0\<close> to one
  key, and refuses a list or a dict with \<^verbatim>\<open>TypeError\<close>.
\<close>

datatype hkey = KNone | KNum rat | KStr string

fun py_hash :: "json \<Rightarrow> py_error + hkey" where
  "py_hash JNull = Inr KNone"
| "py_hash (JBool b) = Inr (KNum (if b then 1 else 0))"
| "py_hash (JInt i) = Inr (KNum (of_int i))"
| "py_hash (JFloat r) = Inr (KNum r)"
| "py_hash (JStr s) = Inr (KStr s)"
| "py_hash (JList xs) = Inl TypeError"
| "py_hash (JObj kvs) = Inl TypeError"

text \<open>
  The mutable state: the module-level dict \<open>conversations\<close>, and the calls made to the
  backend so far.
\<close>

record world =
  conversations :: "hkey \<Rightarrow> message list option"
  calls :: "http_call list"

text \<open>A statement: it runs in a world, raises or returns, and leaves a world.\<close>

type_synonym 'a io = "world \<Rightarrow> (py_error + 'a) \<times> world"

definition io_return :: "'a \<Rightarrow> 'a io" where
  "io_return x = (\<lambda>w. (Inr x, w))"

definition io_lift :: "py_error + 'a \<Rightarrow> 'a io" where
  "io_lift r = (\<lambda>w. (r, w))"

definition io_bind :: "'a io \<Rightarrow> ('a \<Rightarrow> 'b io) \<Rightarrow> 'b io" where
  "io_bind m f = (\<lambda>w. case m w of (Inl e, w') \<Rightarrow> (Inl e, w') | (Inr x, w') \<Rightarrow> f x w')"

text \<open>\<^verbatim>\<open>try: m  except Exception as e: h\<close>\<close>

definition io_catch :: "'a io \<Rightarrow> (py_error \<Rightarrow> 'a io) \<Rightarrow> 'a io" where
  "io_catch m h = (\<lambda>w. case m w of (Inl e, w') \<Rightarrow> h e w' | (Inr x, w') \<Rightarrow> (Inr x, w'))"

text \<open>\<^verbatim>\<open>requests.get\<close> and \<^verbatim>\<open>requests.post\<close>: the call is recorded, then met.\<close>

definition requests_call :: "backend \<Rightarrow> http_call \<Rightarrow> (nat \<times> json option) io" where
  "requests_call be c =
     (\<lambda>w. let cs = calls w @ [c]
          in (case be cs of
                Unreachable \<Rightarrow> Inl RequestException
              | Response status body \<Rightarrow> Inr (status, body),
              w\<lparr>calls := cs\<rparr>))"

definition raise_for_status :: "nat \<times> json option \<Rightarrow> py_error + unit" where
  "raise_for_status resp =
     (if 400 \<le> fst resp \<and> fst resp < 600 then Inl RequestException else Inr ())"

definition resp_json :: "nat \<times> json option \<Rightarrow> py_error + json" where
  "resp_json resp = (case snd resp of None \<Rightarrow> Inl JSONDecodeError | Some j \<Rightarrow> Inr j)"

text \<open>The three statements every call of the relay starts with.\<close>

definition fetch_json :: "backend \<Rightarrow> http_call \<Rightarrow> json io" where
  "fetch_json be c =
     io_bind (requests_call be c) (\<lambda>resp.
     io_bind (io_lift (raise_for_status resp)) (\<lambda>u.
     io_lift (resp_json resp)))"

section \<open>Model resolver: \<^verbatim>\<open>get_active_model\<close>\<close>

text \<open>Iterating a JSON value: a list's elements, a string's characters, a dict's keys.\<close>

fun py_iter :: "json \<Rightarrow> py_error + json list" where
  "py_iter (JList xs) = Inr xs"
| "py_iter (JStr s) = Inr (map (\<lambda>c. JStr [c]) s)"
| "py_iter (JObj kvs) = Inr (map (\<lambda>kv. JStr (fst kv)) kvs)"
| "py_iter _ = Inl TypeError"

text \<open>\<^verbatim>\<open>[m.get("id") for m in data.get("data", []) if isinstance(m, dict)]\<close>\<close>

fun model_ids :: "json \<Rightarrow> py_error + json list" where
  "model_ids (JObj kvs) =
     (case py_iter (case map_of kvs ''data'' of None \<Rightarrow> JList [] | Some v \<Rightarrow> v) of
        Inl e \<Rightarrow> Inl e
      | Inr ms \<Rightarrow>
          Inr (concat (map (\<lambda>m. case m of JObj d \<Rightarrow> [dict_get d ''id''] | _ \<Rightarrow> []) ms)))"
| "model_ids _ = Inl AttributeError"

text \<open>The choice among the listed ids; \<open>None\<close> is falling through to the last line.\<close>

definition choose_model :: "config \<Rightarrow> json list \<Rightarrow> json option" where
  "choose_model cfg ids =
     (let pref = lower (strip (LM_STUDIO_MODEL cfg))
      in if pref = [] \<or> pref = ''auto'' \<or> pref = ''*''
         then (case ids of [] \<Rightarrow> None | m # ms \<Rightarrow> Some m)
         else if JStr (LM_STUDIO_MODEL cfg) \<in> set ids then Some (JStr (LM_STUDIO_MODEL cfg))
         else (case ids of [] \<Rightarrow> None | m # ms \<Rightarrow> Some m))"

definition get_active_model_try :: "config \<Rightarrow> backend \<Rightarrow> json option io" where
  "get_active_model_try cfg be =
     io_bind (fetch_json be (Get Models_URL)) (\<lambda>data.
     io_bind (io_lift (model_ids data)) (\<lambda>ids.
     io_return (choose_model cfg ids)))"

definition get_active_model :: "config \<Rightarrow> backend \<Rightarrow> json io" where
  "get_active_model cfg be =
     io_bind
       (io_catch (get_active_model_try cfg be) (\<lambda>e. io_return None))
       (\<lambda>r. case r of
              Some m \<Rightarrow> io_return m
            | None \<Rightarrow> io_return (JStr (LM_STUDIO_MODEL cfg)))"

section \<open>Inference client: \<^verbatim>\<open>_call_lm_studio\<close>\<close>

definition message_json :: "message \<Rightarrow> json" where
  "message_json m = JObj (map (\<lambda>kv. (fst kv, JStr (snd kv))) m)"

definition chat_payload :: "config \<Rightarrow> message list \<Rightarrow> json \<Rightarrow> json" where
  "chat_payload cfg messages model_id =
     JObj [(''model'', model_id),
           (''messages'', JList (map message_json messages)),
           (''temperature'', JFloat (LM_TEMPERATURE cfg)),
           (''max_tokens'', JInt (LM_MAX_TOKENS cfg)),
           (''stream'', JBool False)]"

text \<open>
  The body of the \<^verbatim>\<open>try\<close> inside the loop: \<open>Some ai_text\<close> is the \<^verbatim>\<open>return ai_text\<close>,
  \<open>None\<close> is reaching the end of the body after the empty text has been logged.
\<close>

definition chat_try :: "config \<Rightarrow> backend \<Rightarrow> message list \<Rightarrow> json \<Rightarrow> string option io" where
  "chat_try cfg be messages model_id =
     io_bind (fetch_json be (Post LM_STUDIO_URL (chat_payload cfg messages model_id)))
       (\<lambda>result.
          let ai_text = extract_ai_text result
          in if ai_text \<noteq> [] then io_return (Some ai_text) else io_return None)"

text \<open>
  The loop \<^verbatim>\<open>for attempt in range(2)\<close>, by the number of attempts left. The handler of
  the \<^verbatim>\<open>except\<close> assigns \<open>model_id\<close> anew; the end of the \<^verbatim>\<open>try\<close> body does not.
\<close>

fun chat_loop :: "nat \<Rightarrow> config \<Rightarrow> backend \<Rightarrow> message list \<Rightarrow> json \<Rightarrow> string option io"
  where
  "chat_loop 0 cfg be messages model_id = io_return None"
| "chat_loop (Suc n) cfg be messages model_id =
     io_bind
       (io_catch
          (io_bind (chat_try cfg be messages model_id) (\<lambda>r. io_return (r, model_id)))
          (\<lambda>e. io_bind (get_active_model cfg be) (\<lambda>m. io_return (None, m))))
       (\<lambda>rm. case fst rm of
                Some ai_text \<Rightarrow> io_return (Some ai_text)
              | None \<Rightarrow> chat_loop n cfg be messages (snd rm))"

definition completions_payload :: "config \<Rightarrow> json \<Rightarrow> string \<Rightarrow> json" where
  "completions_payload cfg model_id prompt =
     JObj [(''model'', model_id),
           (''prompt'', JStr prompt),
           (''temperature'', JFloat (LM_TEMPERATURE cfg)),
           (''max_tokens'', JInt (LM_MAX_TOKENS cfg))]"

text \<open>The fallback: its own \<^verbatim>\<open>try\<close>, whose handler returns the empty string.\<close>

definition completions_fallback :: "config \<Rightarrow> backend \<Rightarrow> message list \<Rightarrow> string io" where
  "completions_fallback cfg be messages =
     io_catch
       (let prompt = messages_to_prompt messages
        in io_bind (get_active_model cfg be) (\<lambda>model_id.
           io_bind (fetch_json be
                      (Post LM_STUDIO_COMPLETIONS_URL (completions_payload cfg model_id prompt)))
             (\<lambda>result. io_return (extract_ai_text result))))
       (\<lambda>e. io_return [])"

definition call_lm_studio :: "config \<Rightarrow> backend \<Rightarrow> message list \<Rightarrow> string io" where
  "call_lm_studio cfg be messages =
     io_bind (get_active_model cfg be) (\<lambda>model_id.
     io_bind (chat_loop 2 cfg be messages model_id) (\<lambda>r.
       case r of
         Some ai_text \<Rightarrow> io_return ai_text
       | None \<Rightarrow> completions_fallback cfg be messages))"

section \<open>Conversation store: \<^verbatim>\<open>build_messages\<close> and the update of \<open>conversations\<close>\<close>

text \<open>The sequence stored under a key, empty when the key is absent.\<close>

definition stored :: "world \<Rightarrow> hkey \<Rightarrow> message list" where
  "stored w k = (case conversations w k of None \<Rightarrow> [] | Some conv \<Rightarrow> conv)"

text \<open>\<^verbatim>\<open>conversations.get(sender_jid, [])\<close>\<close>

definition conversations_get :: "json \<Rightarrow> message list io" where
  "conversations_get sender_jid =
     (\<lambda>w. case py_hash sender_jid of
            Inl e \<Rightarrow> (Inl e, w)
          | Inr k \<Rightarrow> (Inr (stored w k), w))"

definition build_messages :: "json \<Rightarrow> json \<Rightarrow> string \<Rightarrow> message list io" where
  "build_messages sender_name sender_jid text =
     io_bind (conversations_get sender_jid) (\<lambda>conv.
       let history = last8 conv
       in io_return (history @ [turn ''user'' text]))"

text \<open>
  \<^verbatim>\<open>conv = conversations.setdefault(sender_jid, [])\<close> and the two \<^verbatim>\<open>conv.append\<close>:
  the list under the key, created empty when absent, is extended in place.
\<close>

definition update_memory :: "json \<Rightarrow> string \<Rightarrow> string \<Rightarrow> unit io" where
  "update_memory sender_jid message_text ai_text =
     (\<lambda>w. case py_hash sender_jid of
            Inl e \<Rightarrow> (Inl e, w)
          | Inr k \<Rightarrow>
              (let conv = stored w k
               in (Inr (),
                   w\<lparr>conversations := (conversations w)
                        (k \<mapsto> conv @ [turn ''user'' message_text, turn ''assistant'' ai_text])\<rparr>)))"

section \<open>Relay orchestrator: \<^verbatim>\<open>auto_reply\<close>\<close>

text \<open>
  What Flask hands the handler: the result of \<^verbatim>\<open>request.get_json(silent=True)\<close>
  (\<open>None\<close> when the body is not JSON) and \<^verbatim>\<open>request.form.to_dict()\<close>.
\<close>

record request =
  get_json :: "json option"
  form :: "(string \<times> string) list"

text \<open>\<^verbatim>\<open>data.get(k1) or data.get(k2) or ... or default\<close>, evaluated left to right.\<close>

fun first_truthy :: "json \<Rightarrow> string list \<Rightarrow> json \<Rightarrow> py_error + json" where
  "first_truthy data [] dflt = Inr dflt"
| "first_truthy data (k # ks) dflt =
     (case py_get data k of
        Inl e \<Rightarrow> Inl e
      | Inr v \<Rightarrow> if truthy v then Inr v else first_truthy data ks dflt)"

text \<open>\<^verbatim>\<open>sender_jid not in ALLOWED_JIDS\<close>, a set of strings.\<close>

definition not_in_ALLOWED_JIDS :: "config \<Rightarrow> json \<Rightarrow> py_error + bool" where
  "not_in_ALLOWED_JIDS cfg sender_jid =
     (case py_hash sender_jid of
        Inl e \<Rightarrow> Inl e
      | Inr (KStr s) \<Rightarrow> Inr (s \<notin> ALLOWED_JIDS cfg)
      | Inr _ \<Rightarrow> Inr True)"

text \<open>\<^verbatim>\<open>jsonify({"message": s})\<close>, with the status 200.\<close>

definition reply :: "string \<Rightarrow> json \<times> nat" where
  "reply s = (JObj [(''message'', JStr s)], 200)"

definition request_data :: "request \<Rightarrow> json" where
  "request_data req =
     (let data = (case get_json req of
                    None \<Rightarrow> JObj []
                  | Some j \<Rightarrow> if truthy j then j else JObj [])
      in if \<not> truthy data \<and> form req \<noteq> []
         then JObj (map (\<lambda>kv. (fst kv, JStr (snd kv))) (form req))
         else data)"

definition auto_reply_try :: "config \<Rightarrow> backend \<Rightarrow> request \<Rightarrow> (json \<times> nat) io" where
  "auto_reply_try cfg be req =
     (let data = request_data req
      in io_bind (io_lift (first_truthy data [''jid'', ''wa_id'', ''from''] (JStr ''unknown'')))
           (\<lambda>sender_jid.
         io_bind (io_lift (first_truthy data [''name'', ''profile_name'', ''chat_name'']
                             (JStr ''User'')))
           (\<lambda>sender_name.
         io_bind (io_lift (extract_message_text data)) (\<lambda>message_text.
         io_bind (io_lift (if ALLOWED_JIDS cfg \<noteq> {}
                           then not_in_ALLOWED_JIDS cfg sender_jid else Inr False))
           (\<lambda>unauthorized.
           if unauthorized then io_return (reply [])
           else if message_text = [] then io_return (reply [])
           else
             io_bind (build_messages sender_name sender_jid message_text) (\<lambda>messages.
             io_bind (call_lm_studio cfg be messages) (\<lambda>ai_text.
               if ai_text = [] then io_return (reply [])
               else
                 io_bind (update_memory sender_jid message_text ai_text) (\<lambda>u.
                 io_return (reply ai_text)))))))))"

text \<open>The two \<^verbatim>\<open>except\<close> clauses of the handler, both answering the empty reply.\<close>

definition auto_reply :: "config \<Rightarrow> backend \<Rightarrow> request \<Rightarrow> (json \<times> nat) io" where
  "auto_reply cfg be req =
     io_catch (auto_reply_try cfg be req)
       (\<lambda>e. if e = RequestException \<or> e = JSONDecodeError
            then io_return (reply [])
            else io_return (reply []))"

section \<open>Observations on a run\<close>

text \<open>
  What the statements below read off a run: the calls a run added to the log, how many of
  them were POSTs to an endpoint, whether a call failed before any text could be read
  from it, and the text its outcome yields.
\<close>

definition new_calls :: "world \<Rightarrow> world \<Rightarrow> http_call list" where
  "new_calls w w' = drop (length (calls w)) (calls w')"




definition response_text :: "http_outcome \<Rightarrow> string" where
  "response_text outcome =
     (case outcome of
        Unreachable \<Rightarrow> []
      | Response status body \<Rightarrow>
          if 400 \<le> status \<and> status < 600 then []
          else (case body of None \<Rightarrow> [] | Some j \<Rightarrow> extract_ai_text j))"


text \<open>
  The body the listing endpoint is expected to send, \<^verbatim>\<open>{"data": [{"id": ...}, ...]}\<close>, and
  the bodies the resolver cannot read: not a dict, or a dict whose \<^verbatim>\<open>data\<close> cannot be
  iterated.
\<close>

definition models_listing :: "string list \<Rightarrow> json" where
  "models_listing ids = JObj [(''data'', JList (map (\<lambda>i. JObj [(''id'', JStr i)]) ids))]"



section \<open>Concrete configurations, backends and requests\<close>

text \<open>
  The defaults of the module (\<^verbatim>\<open>LM_STUDIO_MODEL = "auto"\<close>, temperature 0.7, 300 tokens, no
  allow-list), a fresh process, and backends that always list two models, never answer,
  always answer a chat with a text, or answer a chat with no choice at all.
\<close>

definition cfg_auto :: config where
  "cfg_auto = \<lparr>LM_STUDIO_MODEL = ''auto'', LM_TEMPERATURE = 7 / 10, LM_MAX_TOKENS = 300,
                ALLOWED_JIDS = {}\<rparr>"



definition w_empty :: world where
  "w_empty = \<lparr>conversations = Map.empty, calls = []\<rparr>"

definition chat_response :: "string \<Rightarrow> http_outcome" where
  "chat_response content =
     Response 200
       (Some (JObj [(''choices'',
                     JList [JObj [(''message'', JObj [(''content'', JStr content)])]])]))"



definition be_ok :: backend where
  "be_ok cs =
     (case last cs of
        Get u \<Rightarrow> Response 200 (Some (models_listing [''m1'', ''m2'']))
      | Post u body \<Rightarrow> chat_response ''hello there'')"


text \<open>
  An allow-list that does not hold the sender \<^verbatim>\<open>42\<close>; the payload of the end-to-end
  scenario; a payload with a sender and no text; a body that is a JSON list.
\<close>

definition cfg_allow :: config where
  "cfg_allow = cfg_auto\<lparr>ALLOWED_JIDS := {''111''}\<rparr>"

definition req_hi :: request where
  "req_hi = \<lparr>get_json = Some (JObj [(''jid'', JStr ''42''), (''text'', JStr ''hi'')]), form = []\<rparr>"

definition req_no_text :: request where
  "req_no_text = \<lparr>get_json = Some (JObj [(''jid'', JStr ''42'')]), form = []\<rparr>"

definition req_list :: request where
  "req_list = \<lparr>get_json = Some (JList [JInt 1]), form = []\<rparr>"

text \<open>
  The server handling requests one after the other, and the state of a fresh process
  after five exchanges with the sender \<^verbatim>\<open>42\<close>.
\<close>

fun serve :: "config \<Rightarrow> backend \<Rightarrow> request list \<Rightarrow> world \<Rightarrow> world" where
  "serve cfg be [] w = w"
| "serve cfg be (req # reqs) w = serve cfg be reqs (snd (auto_reply cfg be req w))"

definition w_after_5 :: world where
  "w_after_5 = serve cfg_auto be_ok [req_hi, req_hi, req_hi, req_hi, req_hi] w_empty"

text \<open>
  Prompt linearization as the specification words it, not as the code has it: of the
  last eight turns, each with non-empty content is rendered by its role, the others are
  skipped, and the lines are joined with newlines after the trailing line
  \<^verbatim>\<open>Assistant:\<close> is added. \<open>strip_content\<close> trims the content of a turn.
\<close>

definition render_turn_spec :: "message \<Rightarrow> string option" where
  "render_turn_spec m =
     (let content = (case map_of m ''content'' of None \<Rightarrow> [] | Some c \<Rightarrow> c)
      in if content = [] then None
         else if map_of m ''role'' = Some ''user'' then Some (''User: '' @ content)
         else if map_of m ''role'' = Some ''assistant'' then Some (''Assistant: '' @ content)
         else Some content)"

definition linearize_spec :: "message list \<Rightarrow> string" where
  "linearize_spec messages =
     join [CHR 0x0A] (List.map_filter render_turn_spec (last8 messages) @ [''Assistant:''])"

definition strip_content :: "message \<Rightarrow> message" where
  "strip_content m = map (\<lambda>kv. if fst kv = ''content'' then (fst kv, strip (snd kv)) else kv) m"

text \<open>
  An allow-list that holds the default sender id, and a payload whose fields are all
  under the wrapper key \<^verbatim>\<open>data\<close>.
\<close>

definition cfg_unknown :: config where
  "cfg_unknown = cfg_auto\<lparr>ALLOWED_JIDS := {''unknown''}\<rparr>"

definition req_wrapped :: request where
  "req_wrapped =
     \<lparr>get_json = Some (JObj [(''data'', JObj [(''jid'', JStr ''42''), (''text'', JStr ''hi'')])]),
      form = []\<rparr>"







section \<open>Basic facts\<close>

subsection \<open>One call, and the model resolver\<close>

lemma fetch_json_result:
  "fetch_json be c w =
     (case be (calls w @ [c]) of
        Unreachable \<Rightarrow> Inl RequestException
      | Response status body \<Rightarrow>
          if 400 \<le> status \<and> status < 600 then Inl RequestException
          else (case body of None \<Rightarrow> Inl JSONDecodeError | Some j \<Rightarrow> Inr j),
      w\<lparr>calls := calls w @ [c]\<rparr>)"
  unfolding fetch_json_def requests_call_def io_bind_def io_lift_def raise_for_status_def
    resp_json_def
  by (auto simp: Let_def split: http_outcome.splits option.splits)

lemma get_active_model_total:
  "\<exists>m. get_active_model cfg be w = (Inr m, w\<lparr>calls := calls w @ [Get Models_URL]\<rparr>)"
  unfolding get_active_model_def get_active_model_try_def fetch_json_def requests_call_def
    io_bind_def io_catch_def io_return_def io_lift_def raise_for_status_def resp_json_def
  by (auto simp: Let_def split: http_outcome.splits option.splits sum.splits prod.splits)








subsection \<open>The attempts of the inference client\<close>

lemma chat_try_calls:
  "snd (chat_try cfg be messages m w) =
     w\<lparr>calls := calls w @ [Post LM_STUDIO_URL (chat_payload cfg messages m)]\<rparr>"
  unfolding chat_try_def io_bind_def io_return_def
  by (simp add: fetch_json_result Let_def split: http_outcome.splits option.splits)



lemma completions_fallback_result:
  "\<exists>m. completions_fallback cfg be messages w =
     (Inr (response_text (be (calls w @
              [Get Models_URL,
               Post LM_STUDIO_COMPLETIONS_URL
                 (completions_payload cfg m (messages_to_prompt messages))]))),
      w\<lparr>calls := calls w @
              [Get Models_URL,
               Post LM_STUDIO_COMPLETIONS_URL
                 (completions_payload cfg m (messages_to_prompt messages))]\<rparr>)"
proof -
  obtain m where m: "get_active_model cfg be w = (Inr m, w\<lparr>calls := calls w @ [Get Models_URL]\<rparr>)"
    using get_active_model_total by blast
  show ?thesis
    apply (rule exI [of _ m])
    unfolding completions_fallback_def io_catch_def io_bind_def io_return_def response_text_def
    by (auto simp: m fetch_json_result Let_def split: http_outcome.splits option.splits)
qed


lemma call_lm_studio_unfold:
  assumes g0: "get_active_model cfg be w = (Inr m0, w0)"
  shows "call_lm_studio cfg be messages w =
     (case chat_loop 2 cfg be messages m0 w0 of
        (Inl e, w') \<Rightarrow> (Inl e, w')
      | (Inr (Some s), w') \<Rightarrow> (Inr s, w')
      | (Inr None, w') \<Rightarrow> completions_fallback cfg be messages w')"
  unfolding call_lm_studio_def io_bind_def io_return_def
  by (simp add: g0 split: prod.splits sum.splits option.splits)














subsection \<open>The handler\<close>

lemma first_truthy_dict: "\<exists>v. first_truthy (JObj kvs) ks dflt = Inr v"
  by (induction ks) auto

lemma first_truthy_is_dict:
  "first_truthy data (k # ks) dflt = Inr v \<Longrightarrow> \<exists>kvs. data = JObj kvs"
  by (cases data) auto

lemma auto_reply_try_reply:
  assumes "fst (auto_reply_try cfg be req w) = Inr x"
  shows "\<exists>s. x = reply s"
  using assms
  unfolding auto_reply_try_def io_bind_def io_lift_def io_return_def
  by (auto simp: Let_def split: sum.splits prod.splits if_splits)

lemma auto_reply_try_unfold:
  assumes "first_truthy (request_data req) [''jid'', ''wa_id'', ''from''] (JStr ''unknown'') =
             Inr sender_jid"
    and "first_truthy (request_data req) [''name'', ''profile_name'', ''chat_name'']
           (JStr ''User'') = Inr sender_name"
    and "extract_message_text (request_data req) = Inr message_text"
  shows "auto_reply_try cfg be req w =
     (case (if ALLOWED_JIDS cfg \<noteq> {} then not_in_ALLOWED_JIDS cfg sender_jid else Inr False) of
        Inl e \<Rightarrow> (Inl e, w)
      | Inr unauthorized \<Rightarrow>
          if unauthorized then (Inr (reply []), w)
          else if message_text = [] then (Inr (reply []), w)
          else
            (case build_messages sender_name sender_jid message_text w of
               (Inl e, w1) \<Rightarrow> (Inl e, w1)
             | (Inr messages, w1) \<Rightarrow>
                 (case call_lm_studio cfg be messages w1 of
                    (Inl e, w2) \<Rightarrow> (Inl e, w2)
                  | (Inr ai_text, w2) \<Rightarrow>
                      if ai_text = [] then (Inr (reply []), w2)
                      else
                        (case update_memory sender_jid message_text ai_text w2 of
                           (Inl e, w3) \<Rightarrow> (Inl e, w3)
                         | (Inr u, w3) \<Rightarrow> (Inr (reply ai_text), w3)))))"
  unfolding auto_reply_try_def Let_def assms io_bind_def io_lift_def io_return_def
  by (simp split: sum.splits prod.splits)

lemma auto_reply_catch:
  "auto_reply cfg be req w =
     (case auto_reply_try cfg be req w of
        (Inl e, w') \<Rightarrow> (Inr (reply []), w')
      | (Inr x, w') \<Rightarrow> (Inr x, w'))"
  unfolding auto_reply_def io_catch_def io_return_def
  by (simp split: sum.splits prod.splits)

lemma req_hi_data:
  "request_data req_hi = JObj [(''jid'', JStr ''42''), (''text'', JStr ''hi'')]"
  by (simp add: request_data_def req_hi_def)

lemma req_hi_sender:
  "first_truthy (request_data req_hi) [''jid'', ''wa_id'', ''from''] (JStr ''unknown'') =
     Inr (JStr ''42'')"
  by (simp add: req_hi_data dict_get_def)

lemma req_hi_text: "extract_message_text (request_data req_hi) = Inr ''hi''"
  unfolding req_hi_data by code_simp

lemma req_no_text_sender:
  "first_truthy (request_data req_no_text) [''jid'', ''wa_id'', ''from''] (JStr ''unknown'') =
     Inr (JStr ''42'')"
  by (simp add: request_data_def req_no_text_def dict_get_def)

lemma req_no_text_text: "extract_message_text (request_data req_no_text) = Inr []"
  by code_simp

lemma req_list_raises: "fst (auto_reply_try cfg_auto be_ok req_list w_empty) = Inl AttributeError"
  by code_simp

subsection \<open>The calls a request makes\<close>


lemma chat_loop_calls:
  "\<exists>cs. snd (chat_loop n cfg be messages m w) = w\<lparr>calls := calls w @ cs\<rparr> \<and>
        (\<forall>c \<in> set cs. c = Get Models_URL \<or>
                      (\<exists>m'. c = Post LM_STUDIO_URL (chat_payload cfg messages m')))"
proof (induction n arbitrary: m w)
  case 0
  have "snd (chat_loop 0 cfg be messages m w) = w\<lparr>calls := calls w @ []\<rparr>"
    by (simp add: io_return_def)
  then show ?case by fastforce
next
  case (Suc n)
  let ?P = "Post LM_STUDIO_URL (chat_payload cfg messages m)"
  let ?w1 = "w\<lparr>calls := calls w @ [?P]\<rparr>"
  obtain x where x: "chat_try cfg be messages m w = (x, ?w1)"
    using chat_try_calls [of cfg be messages m w] by (cases "chat_try cfg be messages m w") simp
  obtain m1 where m1: "get_active_model cfg be ?w1 = (Inr m1, ?w1\<lparr>calls := calls ?w1 @ [Get Models_URL]\<rparr>)"
    using get_active_model_total [of cfg be ?w1] by blast
  show ?case
  proof (cases x)
    case (Inl e)
    obtain cs where cs: "snd (chat_loop n cfg be messages m1 (w\<lparr>calls := calls w @ [?P, Get Models_URL]\<rparr>)) =
        w\<lparr>calls := calls w @ [?P, Get Models_URL] @ cs\<rparr>"
      and ok: "\<forall>c \<in> set cs. c = Get Models_URL \<or>
                      (\<exists>m'. c = Post LM_STUDIO_URL (chat_payload cfg messages m'))"
      using Suc.IH [of m1 "w\<lparr>calls := calls w @ [?P, Get Models_URL]\<rparr>"] by auto
    have "snd (chat_loop (Suc n) cfg be messages m w) =
            w\<lparr>calls := calls w @ ([?P, Get Models_URL] @ cs)\<rparr>"
      using Inl x m1 cs by (simp add: io_bind_def io_catch_def io_return_def)
    moreover have "\<forall>c \<in> set ([?P, Get Models_URL] @ cs). c = Get Models_URL \<or>
                      (\<exists>m'. c = Post LM_STUDIO_URL (chat_payload cfg messages m'))"
      using ok by auto
    ultimately show ?thesis by blast
  next
    case (Inr y)
    show ?thesis
    proof (cases y)
      case None
      obtain cs where cs: "snd (chat_loop n cfg be messages m ?w1) =
          w\<lparr>calls := calls w @ [?P] @ cs\<rparr>"
        and ok: "\<forall>c \<in> set cs. c = Get Models_URL \<or>
                      (\<exists>m'. c = Post LM_STUDIO_URL (chat_payload cfg messages m'))"
        using Suc.IH [of m ?w1] by auto
      have "snd (chat_loop (Suc n) cfg be messages m w) = w\<lparr>calls := calls w @ ([?P] @ cs)\<rparr>"
        using Inr None x cs by (simp add: io_bind_def io_catch_def io_return_def)
      moreover have "\<forall>c \<in> set ([?P] @ cs). c = Get Models_URL \<or>
                      (\<exists>m'. c = Post LM_STUDIO_URL (chat_payload cfg messages m'))"
        using ok by auto
      ultimately show ?thesis by blast
    next
      case (Some s)
      have "snd (chat_loop (Suc n) cfg be messages m w) = w\<lparr>calls := calls w @ [?P]\<rparr>"
        using Inr Some x by (simp add: io_bind_def io_catch_def io_return_def)
      moreover have "\<forall>c \<in> set [?P]. c = Get Models_URL \<or>
                      (\<exists>m'. c = Post LM_STUDIO_URL (chat_payload cfg messages m'))"
        by auto
      ultimately show ?thesis by blast
    qed
  qed
qed

lemma chat_loop_no_raise: "\<exists>r. fst (chat_loop n cfg be messages m w) = Inr r"
proof (induction n arbitrary: m w)
  case 0
  show ?case by (simp add: io_return_def)
next
  case (Suc n)
  let ?P = "Post LM_STUDIO_URL (chat_payload cfg messages m)"
  let ?w1 = "w\<lparr>calls := calls w @ [?P]\<rparr>"
  obtain x where x: "chat_try cfg be messages m w = (x, ?w1)"
    using chat_try_calls [of cfg be messages m w] by (cases "chat_try cfg be messages m w") simp
  obtain m1 where m1: "get_active_model cfg be ?w1 = (Inr m1, ?w1\<lparr>calls := calls ?w1 @ [Get Models_URL]\<rparr>)"
    using get_active_model_total [of cfg be ?w1] by blast
  show ?case
  proof (cases x)
    case (Inl e)
    then show ?thesis
      using x m1 Suc.IH [of m1 "w\<lparr>calls := calls w @ [?P, Get Models_URL]\<rparr>"]
      by (simp add: io_bind_def io_catch_def io_return_def)
  next
    case (Inr y)
    then show ?thesis
      using x Suc.IH [of m ?w1]
      by (cases y) (simp_all add: io_bind_def io_catch_def io_return_def)
  qed
qed

lemma call_lm_studio_calls:
  "\<exists>s cs. call_lm_studio cfg be messages w = (Inr s, w\<lparr>calls := calls w @ cs\<rparr>) \<and>
        (\<forall>c \<in> set cs. c = Get Models_URL \<or>
           (\<exists>m. c = Post LM_STUDIO_URL (chat_payload cfg messages m)) \<or>
           (\<exists>m. c = Post LM_STUDIO_COMPLETIONS_URL
                        (completions_payload cfg m (messages_to_prompt messages))))"
proof -
  let ?G = "Get Models_URL"
  let ?ok = "\<lambda>c. c = Get Models_URL \<or>
           (\<exists>m. c = Post LM_STUDIO_URL (chat_payload cfg messages m)) \<or>
           (\<exists>m. c = Post LM_STUDIO_COMPLETIONS_URL
                        (completions_payload cfg m (messages_to_prompt messages)))"
  obtain m0 where g0: "get_active_model cfg be w = (Inr m0, w\<lparr>calls := calls w @ [?G]\<rparr>)"
    using get_active_model_total by blast
  let ?w0 = "w\<lparr>calls := calls w @ [?G]\<rparr>"
  obtain cs where cs: "snd (chat_loop 2 cfg be messages m0 ?w0) = w\<lparr>calls := calls w @ [?G] @ cs\<rparr>"
    and ok: "\<forall>c \<in> set cs. c = Get Models_URL \<or>
                      (\<exists>m'. c = Post LM_STUDIO_URL (chat_payload cfg messages m'))"
    using chat_loop_calls [of 2 cfg be messages m0 ?w0] by auto
  obtain r where r: "fst (chat_loop 2 cfg be messages m0 ?w0) = Inr r"
    using chat_loop_no_raise by blast
  have loop: "chat_loop 2 cfg be messages m0 ?w0 = (Inr r, w\<lparr>calls := calls w @ [?G] @ cs\<rparr>)"
    using cs r by (cases "chat_loop 2 cfg be messages m0 ?w0") simp
  show ?thesis
  proof (cases r)
    case (Some s)
    have "call_lm_studio cfg be messages w = (Inr s, w\<lparr>calls := calls w @ ([?G] @ cs)\<rparr>)"
      using Some loop by (simp add: call_lm_studio_unfold [OF g0])
    moreover have "\<forall>c \<in> set ([?G] @ cs). ?ok c"
      using ok by auto
    ultimately show ?thesis by blast
  next
    case None
    obtain m where fb: "completions_fallback cfg be messages (w\<lparr>calls := calls w @ [?G] @ cs\<rparr>) =
      (Inr (response_text (be (calls w @ ([?G] @ cs) @
              [?G, Post LM_STUDIO_COMPLETIONS_URL
                 (completions_payload cfg m (messages_to_prompt messages))]))),
       w\<lparr>calls := calls w @ ([?G] @ cs) @
              [?G, Post LM_STUDIO_COMPLETIONS_URL
                 (completions_payload cfg m (messages_to_prompt messages))]\<rparr>)"
      using completions_fallback_result [of cfg be messages "w\<lparr>calls := calls w @ [?G] @ cs\<rparr>"]
      by auto
    let ?cs' = "([?G] @ cs) @ [?G, Post LM_STUDIO_COMPLETIONS_URL
                 (completions_payload cfg m (messages_to_prompt messages))]"
    have "call_lm_studio cfg be messages w =
            (Inr (response_text (be (calls w @ ?cs'))), w\<lparr>calls := calls w @ ?cs'\<rparr>)"
      using None loop fb by (simp add: call_lm_studio_unfold [OF g0])
    moreover have "\<forall>c \<in> set ?cs'. ?ok c"
      using ok by auto
    ultimately show ?thesis by blast
  qed
qed

subsection \<open>Reading and writing the store\<close>

lemma length_last8: "length (last8 xs) \<le> 8"
  by (simp add: last8_def)

lemma build_messages_result:
  assumes "py_hash sender_jid = Inr k"
  shows "build_messages sender_name sender_jid text w =
           (Inr (last8 (stored w k) @ [turn ''user'' text]), w)"
  by (simp add: build_messages_def conversations_get_def io_bind_def io_return_def assms Let_def)

lemma build_messages_raises:
  assumes "py_hash sender_jid = Inl e"
  shows "build_messages sender_name sender_jid text w = (Inl e, w)"
  by (simp add: build_messages_def conversations_get_def io_bind_def io_return_def assms)

lemma update_memory_result:
  assumes "py_hash sender_jid = Inr k"
  shows "update_memory sender_jid message_text ai_text w =
           (Inr (),
            w\<lparr>conversations := (conversations w)
                 (k \<mapsto> stored w k @ [turn ''user'' message_text, turn ''assistant'' ai_text])\<rparr>)"
  by (simp add: update_memory_def assms Let_def)

lemma stored_update:
  "stored (w\<lparr>conversations := (conversations w)(k \<mapsto> conv), calls := cs\<rparr>) k = conv"
  "stored (w\<lparr>calls := cs\<rparr>) k' = stored w k'"
  by (simp_all add: stored_def)

lemma req_hi_inference:
  "fst (call_lm_studio cfg_auto be_ok (last8 (stored w_empty (KStr ''42'')) @ [turn ''user'' ''hi''])
         w_empty) = Inr ''hello there''"
  by code_simp

lemma probe_dict: "\<exists>r. probe ks (JObj kvs) = Inr r"
  by (induction ks) (auto split: json.splits)

lemma probe_wrappers_dict: "\<exists>r. probe_wrappers ws (JObj kvs) = Inr r"
proof (induction ws)
  case Nil
  show ?case by simp
next
  case (Cons wrapper ws)
  show ?case
  proof (cases "dict_get kvs wrapper")
    case (JObj inner)
    obtain r where "probe candidates (JObj inner) = Inr r"
      using probe_dict by blast
    with JObj Cons show ?thesis
      by (cases r) auto
  qed (use Cons in auto)
qed

lemma extract_message_text_dict: "\<exists>t. extract_message_text (JObj kvs) = Inr t"
proof -
  obtain r where r: "probe candidates (JObj kvs) = Inr r"
    using probe_dict by blast
  obtain r' where r': "probe_wrappers [''data'', ''payload''] (JObj kvs) = Inr r'"
    using probe_wrappers_dict by blast
  show ?thesis
    unfolding extract_message_text_def r r'
    by (cases r; cases r') simp_all
qed

lemma auto_reply_try_no_sender:
  assumes "first_truthy (request_data req) [''jid'', ''wa_id'', ''from''] (JStr ''unknown'') = Inl e"
  shows "auto_reply_try cfg be req w = (Inl e, w)"
  unfolding auto_reply_try_def Let_def assms io_bind_def io_lift_def
  by simp

lemma auto_reply_calls:
  "\<exists>cs k text. calls (snd (auto_reply cfg be req w)) = calls w @ cs \<and>
     (\<forall>c \<in> set cs. c = Get Models_URL \<or>
        (\<exists>m. c = Post LM_STUDIO_URL
                    (chat_payload cfg (last8 (stored w k) @ [turn ''user'' text]) m)) \<or>
        (\<exists>m. c = Post LM_STUDIO_COMPLETIONS_URL
                    (completions_payload cfg m
                       (messages_to_prompt (last8 (stored w k) @ [turn ''user'' text])))))"
proof -
  have same: ?thesis if "snd (auto_reply cfg be req w) = w"
  proof -
    have "calls (snd (auto_reply cfg be req w)) = calls w @ []"
      using that by simp
    then show ?thesis by fastforce
  qed
  show ?thesis
  proof (cases "first_truthy (request_data req) [''jid'', ''wa_id'', ''from''] (JStr ''unknown'')")
    case (Inl e)
    then show ?thesis
      by (intro same) (simp add: auto_reply_catch auto_reply_try_no_sender)
  next
    case (Inr sender_jid)
    obtain kvs where d: "request_data req = JObj kvs"
      using Inr first_truthy_is_dict by blast
    obtain sender_name where n:
      "first_truthy (request_data req) [''name'', ''profile_name'', ''chat_name''] (JStr ''User'') =
         Inr sender_name"
      unfolding d using first_truthy_dict by blast
    obtain message_text where t: "extract_message_text (request_data req) = Inr message_text"
      unfolding d using extract_message_text_dict by blast
    note unfold = auto_reply_try_unfold [OF Inr n t]
    show ?thesis
    proof (cases "if ALLOWED_JIDS cfg \<noteq> {} then not_in_ALLOWED_JIDS cfg sender_jid else Inr False")
      case a: (Inl e)
      show ?thesis
        by (intro same) (simp add: auto_reply_catch unfold a)
    next
      case a: (Inr unauthorized)
      show ?thesis
      proof (cases "unauthorized \<or> message_text = []")
        case True
        then show ?thesis
          by (intro same) (auto simp: auto_reply_catch unfold a)
      next
        case False
        show ?thesis
        proof (cases "py_hash sender_jid")
          case h: (Inl e)
          show ?thesis
            using False
            by (intro same) (simp add: auto_reply_catch unfold a build_messages_raises [OF h])
        next
          case h: (Inr k)
          let ?messages = "last8 (stored w k) @ [turn ''user'' message_text]"
          obtain s cs where c:
            "call_lm_studio cfg be ?messages w = (Inr s, w\<lparr>calls := calls w @ cs\<rparr>)"
            and ok: "\<forall>c \<in> set cs. c = Get Models_URL \<or>
               (\<exists>m. c = Post LM_STUDIO_URL (chat_payload cfg ?messages m)) \<or>
               (\<exists>m. c = Post LM_STUDIO_COMPLETIONS_URL
                        (completions_payload cfg m (messages_to_prompt ?messages)))"
            using call_lm_studio_calls [of cfg be ?messages w] by blast
          have "calls (snd (auto_reply cfg be req w)) = calls w @ cs"
            using False
            by (simp add: auto_reply_catch unfold a build_messages_result [OF h] c
                  update_memory_result [OF h])
          with ok show ?thesis by blast
        qed
      qed
    qed
  qed
qed

lemma w_after_5_stored: "length (stored w_after_5 (KStr ''42'')) = 10"
  unfolding w_after_5_def by code_simp

lemma sixth_request_chat_call:
  "Post LM_STUDIO_URL
     (chat_payload cfg_auto (last8 (stored w_after_5 (KStr ''42'')) @ [turn ''user'' ''hi''])
        (JStr ''m1''))
   \<in> set (new_calls w_after_5 (snd (auto_reply cfg_auto be_ok req_hi w_after_5)))"
  unfolding w_after_5_def by code_simp

subsection \<open>Linearization\<close>

lemma map_of_strip_content:
  "map_of (strip_content m) ''content'' = map_option strip (map_of m ''content'')"
  "map_of (strip_content m) ''role'' = map_of m ''role''"
  unfolding strip_content_def by (induction m) auto

lemma strip_Nil: "strip [] = []"
  by (simp add: strip_def)

lemma prompt_parts_eq:
  "prompt_parts ms parts = parts @ List.map_filter render_turn_spec (map strip_content ms)"
proof (induction ms arbitrary: parts)
  case Nil
  show ?case by (simp add: List.map_filter_simps)
next
  case (Cons m ms)
  show ?case
    by (cases "map_of m ''content''")
      (simp_all add: Cons.IH List.map_filter_simps render_turn_spec_def map_of_strip_content Let_def
        strip_Nil)
qed

lemma last8_map: "last8 (map f xs) = map f (last8 xs)"
  by (simp add: last8_def drop_map)

lemma last8_idem: "last8 (last8 xs) = last8 xs"
  by (simp add: last8_def)

lemma join_snoc:
  "join sep (ps @ [l]) = (if ps = [] then l else join sep ps @ sep @ l)"
  by (induction sep ps rule: join.induct) auto

subsection \<open>Wrapped payloads\<close>

lemma wrapper_not_candidate:
  assumes "wrapper = ''data'' \<or> wrapper = ''payload''"
  shows "probe candidates (JObj [(wrapper, JObj inner)]) = Inr None"
  using assms by (auto simp: candidates_def dict_get_def)

lemma wrapped_sender:
  assumes "wrapper = ''data'' \<or> wrapper = ''payload''"
  shows "first_truthy (JObj [(wrapper, JObj inner)]) [''jid'', ''wa_id'', ''from''] (JStr ''unknown'') =
           Inr (JStr ''unknown'')"
    and "first_truthy (JObj [(wrapper, JObj inner)]) [''name'', ''profile_name'', ''chat_name'']
           (JStr ''User'') = Inr (JStr ''User'')"
  using assms by (auto simp: dict_get_def)

lemma wrapped_text:
  assumes "wrapper = ''data'' \<or> wrapper = ''payload''"
  shows "extract_message_text (JObj [(wrapper, JObj inner)]) =
           Inr (case probe candidates (JObj inner) of Inr (Some v) \<Rightarrow> v | _ \<Rightarrow> [])"
proof -
  obtain r where r: "probe candidates (JObj inner) = Inr r"
    using probe_dict by blast
  show ?thesis
    using assms
    unfolding extract_message_text_def wrapper_not_candidate [OF assms]
    by (cases r) (auto simp: r dict_get_def)
qed

lemma req_wrapped_data:
  "request_data req_wrapped =
     JObj [(''data'', JObj [(''jid'', JStr ''42''), (''text'', JStr ''hi'')])]"
  by (simp add: request_data_def req_wrapped_def)

lemma req_wrapped_inner_text:
  "probe candidates (JObj [(''jid'', JStr ''42''), (''text'', JStr ''hi'')]) = Inr (Some ''hi'')"
  by code_simp

lemma cfg_unknown_allows: "ALLOWED_JIDS cfg_unknown = {''unknown''}"
  by (simp add: cfg_unknown_def cfg_auto_def)

lemma req_wrapped_accepted:
  "fst (auto_reply cfg_unknown be_ok req_wrapped w_empty) =
     Inr (JObj [(''message'', JStr ''hello there'')], 200)"
  by code_simp

section \<open>Properties of the relay\<close>

subsection \<open>C5: the model resolver\<close>




subsection \<open>C3: retry and fallback of the inference client\<close>




subsection \<open>C1: the handler always answers 200 with a message\<close>

text \<open>
  C1. For every configuration, backend, request and state, \<^verbatim>\<open>auto_reply\<close> returns a
  JSON object \<^verbatim>\<open>{"message": s}\<close> for some string \<open>s\<close> with status 200; and whenever the
  body of its \<^verbatim>\<open>try\<close> raises, whatever the exception, the result is the empty reply
  \<^verbatim>\<open>{"message": ""}\<close> with status 200.
\<close>

theorem auto_reply_always_200:
  "(\<exists>s. fst (auto_reply cfg be req w) = Inr (JObj [(''message'', JStr s)], 200)) \<and>
   (\<forall>e. fst (auto_reply_try cfg be req w) = Inl e \<longrightarrow>
        fst (auto_reply cfg be req w) = Inr (JObj [(''message'', JStr [])], 200))"
proof (cases "auto_reply_try cfg be req w")
  case (Pair x w')
  show ?thesis
  proof (cases x)
    case (Inl e)
    with Pair show ?thesis
      by (simp add: auto_reply_catch reply_def)
  next
    case (Inr y)
    with Pair have "fst (auto_reply_try cfg be req w) = Inr y"
      by simp
    then obtain s where "y = reply s"
      using auto_reply_try_reply by blast
    with Pair Inr show ?thesis
      by (simp add: auto_reply_catch reply_def)
  qed
qed

theorem auto_reply_always_200_witness:
  "fst (auto_reply_try cfg_auto be_ok req_list w_empty) = Inl AttributeError \<and>
   fst (auto_reply cfg_auto be_ok req_list w_empty) = Inr (JObj [(''message'', JStr [])], 200)"
  using auto_reply_always_200 [of cfg_auto be_ok req_list w_empty] req_list_raises
  by simp

subsection \<open>C7: rejected senders and empty texts\<close>

text \<open>
  C7. For a payload that normalizes to a sender id and a text: if the allow-list is
  non-empty and the sender id is not in it, or the text is empty, the handler returns the
  empty reply and leaves the whole state as it was: no call is added to the log of
  backend calls and the conversation store is unchanged.
\<close>

theorem rejected_or_empty_is_silent:
  assumes "first_truthy (request_data req) [''jid'', ''wa_id'', ''from''] (JStr ''unknown'') =
             Inr sender_jid"
    and "extract_message_text (request_data req) = Inr message_text"
    and "(ALLOWED_JIDS cfg \<noteq> {} \<and> not_in_ALLOWED_JIDS cfg sender_jid = Inr True) \<or>
         message_text = []"
  shows "auto_reply cfg be req w = (Inr (JObj [(''message'', JStr [])], 200), w)"
proof -
  obtain kvs where d: "request_data req = JObj kvs"
    using assms(1) first_truthy_is_dict by blast
  obtain sender_name where n:
    "first_truthy (request_data req) [''name'', ''profile_name'', ''chat_name''] (JStr ''User'') =
       Inr sender_name"
    unfolding d using first_truthy_dict by blast
  have t: "auto_reply_try cfg be req w = (Inr (reply []), w) \<or>
           (\<exists>e. auto_reply_try cfg be req w = (Inl e, w))"
    using assms(3)
    by (auto simp: auto_reply_try_unfold [OF assms(1) n assms(2)] split: sum.splits)
  then show ?thesis
    by (auto simp: auto_reply_catch reply_def)
qed

theorem rejected_or_empty_is_silent_witness:
  "(ALLOWED_JIDS cfg_allow \<noteq> {} \<and> not_in_ALLOWED_JIDS cfg_allow (JStr ''42'') = Inr True) \<and>
   auto_reply cfg_allow be_ok req_hi w_empty =
     (Inr (JObj [(''message'', JStr [])], 200), w_empty) \<and>
   extract_message_text (request_data req_no_text) = Inr [] \<and>
   auto_reply cfg_auto be_ok req_no_text w_empty =
     (Inr (JObj [(''message'', JStr [])], 200), w_empty)"
proof -
  have a: "ALLOWED_JIDS cfg_allow \<noteq> {} \<and> not_in_ALLOWED_JIDS cfg_allow (JStr ''42'') = Inr True"
    by (simp add: cfg_allow_def cfg_auto_def not_in_ALLOWED_JIDS_def)
  from a req_no_text_text
    rejected_or_empty_is_silent [OF req_hi_sender req_hi_text, of cfg_allow be_ok w_empty]
    rejected_or_empty_is_silent [OF req_no_text_sender req_no_text_text, of cfg_auto be_ok w_empty]
  show ?thesis by simp
qed

subsection \<open>C4: a successful exchange\<close>

text \<open>
  C4. On the success path (the payload normalizes to a sender id and a non-empty text,
  the allow-list is empty or holds the sender, and the inference client returns a
  non-empty text for the history followed by the new user turn), the response is exactly
  \<^verbatim>\<open>{"message": <reply text>}\<close> with status 200, and the sender's stored sequence is the
  old one followed by the turn \<^verbatim>\<open>{role: user, content: <inbound text>}\<close> and the turn
  \<^verbatim>\<open>{role: assistant, content: <reply text>}\<close>, in that order: it grows by exactly two
  turns. The witness is the end-to-end
  scenario: payload \<^verbatim>\<open>{jid: "42", text: "hi"}\<close> and a backend answering \<^verbatim>\<open>hello there\<close>.
\<close>

theorem successful_exchange:
  assumes "first_truthy (request_data req) [''jid'', ''wa_id'', ''from''] (JStr ''unknown'') =
             Inr sender_jid"
    and "extract_message_text (request_data req) = Inr message_text"
    and "message_text \<noteq> []"
    and "ALLOWED_JIDS cfg = {} \<or> not_in_ALLOWED_JIDS cfg sender_jid = Inr False"
    and "py_hash sender_jid = Inr k"
    and "fst (call_lm_studio cfg be
                (last8 (stored w k) @ [[(''role'', ''user''), (''content'', message_text)]]) w) =
           Inr ai_text"
    and "ai_text \<noteq> []"
  shows "fst (auto_reply cfg be req w) = Inr (JObj [(''message'', JStr ai_text)], 200) \<and>
         stored (snd (auto_reply cfg be req w)) k =
           stored w k @ [[(''role'', ''user''), (''content'', message_text)],
                         [(''role'', ''assistant''), (''content'', ai_text)]] \<and>
         length (stored (snd (auto_reply cfg be req w)) k) = length (stored w k) + 2"
proof -
  obtain kvs where d: "request_data req = JObj kvs"
    using assms(1) first_truthy_is_dict by blast
  obtain sender_name where n:
    "first_truthy (request_data req) [''name'', ''profile_name'', ''chat_name''] (JStr ''User'') =
       Inr sender_name"
    unfolding d using first_truthy_dict by blast
  let ?messages = "last8 (stored w k) @ [turn ''user'' message_text]"
  obtain s cs where c: "call_lm_studio cfg be ?messages w = (Inr s, w\<lparr>calls := calls w @ cs\<rparr>)"
    using call_lm_studio_calls [of cfg be ?messages w] by blast
  with assms(6) have s: "s = ai_text"
    by (simp add: turn_def)
  have a: "(if ALLOWED_JIDS cfg \<noteq> {} then not_in_ALLOWED_JIDS cfg sender_jid else Inr False) =
             Inr False"
    using assms(4) by auto
  let ?w' = "w\<lparr>calls := calls w @ cs,
               conversations := (conversations w)
                 (k \<mapsto> stored w k @ [turn ''user'' message_text, turn ''assistant'' ai_text])\<rparr>"
  have u: "update_memory sender_jid message_text ai_text (w\<lparr>calls := calls w @ cs\<rparr>) =
             (Inr (), ?w')"
    by (simp add: update_memory_result [OF assms(5)] stored_def)
  have t: "auto_reply_try cfg be req w = (Inr (reply ai_text), ?w')"
    by (simp add: auto_reply_try_unfold [OF assms(1) n assms(2)] a assms(3,7)
          build_messages_result [OF assms(5)] c s u)
  then have r: "auto_reply cfg be req w = (Inr (reply ai_text), ?w')"
    by (simp add: auto_reply_catch)
  show ?thesis
    by (simp add: r reply_def stored_def turn_def)
qed

theorem successful_exchange_witness:
  "fst (auto_reply cfg_auto be_ok req_hi w_empty) =
     Inr (JObj [(''message'', JStr ''hello there'')], 200) \<and>
   stored w_empty (KStr ''42'') = [] \<and>
   stored (snd (auto_reply cfg_auto be_ok req_hi w_empty)) (KStr ''42'') =
     [[(''role'', ''user''), (''content'', ''hi'')],
      [(''role'', ''assistant''), (''content'', ''hello there'')]]"
proof -
  have e: "stored w_empty (KStr ''42'') = []"
    by (simp add: stored_def w_empty_def)
  have h: "py_hash (JStr ''42'') = Inr (KStr ''42'')" "''hi'' \<noteq> []" "''hello there'' \<noteq> []"
    "ALLOWED_JIDS cfg_auto = {} \<or> not_in_ALLOWED_JIDS cfg_auto (JStr ''42'') = Inr False"
    by (simp_all add: cfg_auto_def)
  from successful_exchange [OF req_hi_sender req_hi_text h(2) h(4) h(1) req_hi_inference [unfolded turn_def] h(3)] e
  show ?thesis by simp
qed

subsection \<open>C2: no truncation on write\<close>

text \<open>
  C2, as stated, bounds the stored sequence by 8 turns after every write. The code
  appends and never truncates: after five successful exchanges from a fresh process the
  sequence stored for the sender holds 10 turns.
\<close>

theorem store_exceeds_bound_counterexample:
  "length (stored (serve cfg_auto be_ok [req_hi, req_hi, req_hi, req_hi, req_hi] w_empty)
             (KStr ''42'')) = 10 \<and>
   \<not> length (stored (serve cfg_auto be_ok [req_hi, req_hi, req_hi, req_hi, req_hi] w_empty)
               (KStr ''42'')) \<le> 8"
  using w_after_5_stored unfolding w_after_5_def by simp

text \<open>
  C2, amended. The write of the store never truncates: for a hashable sender id it
  succeeds and leaves the sender's stored sequence equal to the old one followed by the
  user turn and the assistant turn, two turns longer than before, whatever its length
  was. (The bound of 8 turns holds on the read, see C6.)
\<close>

theorem update_memory_appends:
  assumes "py_hash sender_jid = Inr k"
  shows "fst (update_memory sender_jid message_text ai_text w) = Inr () \<and>
         stored (snd (update_memory sender_jid message_text ai_text w)) k =
           stored w k @ [turn ''user'' message_text, turn ''assistant'' ai_text] \<and>
         length (stored (snd (update_memory sender_jid message_text ai_text w)) k) =
           length (stored w k) + 2"
  by (simp add: update_memory_result [OF assms] stored_def)

theorem update_memory_appends_witness:
  "py_hash (JStr ''42'') = Inr (KStr ''42'') \<and>
   length (stored w_after_5 (KStr ''42'')) = 10 \<and>
   length (stored (snd (update_memory (JStr ''42'') ''hi'' ''hello there'' w_after_5)) (KStr ''42'')) =
     12"
  using update_memory_appends [of "JStr ''42''" "KStr ''42''" "''hi''" "''hello there''" w_after_5]
    w_after_5_stored
  by simp

subsection \<open>C6: the history sent to the backend\<close>

text \<open>
  C6. Every call a request adds to the log of backend calls is the model listing, or a
  chat POST whose messages are a history followed by the new user turn, or a completions
  POST whose prompt is linearized from such a sequence; in both the history is the last
  eight turns of a stored sequence, so it never exceeds 8 turns, whatever the state the
  earlier exchanges left.
\<close>

theorem history_sent_is_bounded:
  assumes "c \<in> set (new_calls w (snd (auto_reply cfg be req w)))"
  shows "c = Get Models_URL \<or>
         (\<exists>history text model_id.
            length history \<le> 8 \<and> (\<exists>k. history = last8 (stored w k)) \<and>
            (c = Post LM_STUDIO_URL (chat_payload cfg (history @ [turn ''user'' text]) model_id) \<or>
             c = Post LM_STUDIO_COMPLETIONS_URL
                   (completions_payload cfg model_id
                      (messages_to_prompt (history @ [turn ''user'' text])))))"
proof -
  obtain cs k msg where cs: "calls (snd (auto_reply cfg be req w)) = calls w @ cs"
    and ok: "\<forall>c \<in> set cs. c = Get Models_URL \<or>
        (\<exists>m. c = Post LM_STUDIO_URL
                    (chat_payload cfg (last8 (stored w k) @ [turn ''user'' msg]) m)) \<or>
        (\<exists>m. c = Post LM_STUDIO_COMPLETIONS_URL
                    (completions_payload cfg m
                       (messages_to_prompt (last8 (stored w k) @ [turn ''user'' msg]))))"
    using auto_reply_calls [of cfg be req w] by blast
  from assms cs have "c \<in> set cs"
    by (simp add: new_calls_def)
  with ok have "c = Get Models_URL \<or>
        (\<exists>m. c = Post LM_STUDIO_URL
                    (chat_payload cfg (last8 (stored w k) @ [turn ''user'' msg]) m)) \<or>
        (\<exists>m. c = Post LM_STUDIO_COMPLETIONS_URL
                    (completions_payload cfg m
                       (messages_to_prompt (last8 (stored w k) @ [turn ''user'' msg]))))"
    by blast
  then show ?thesis
    using length_last8 [of "stored w k"] by blast
qed

theorem history_sent_is_bounded_witness:
  "Post LM_STUDIO_URL
     (chat_payload cfg_auto (last8 (stored w_after_5 (KStr ''42'')) @ [turn ''user'' ''hi''])
        (JStr ''m1''))
   \<in> set (new_calls w_after_5 (snd (auto_reply cfg_auto be_ok req_hi w_after_5))) \<and>
   length (stored w_after_5 (KStr ''42'')) = 10 \<and>
   length (last8 (stored w_after_5 (KStr ''42''))) = 8 \<and>
   (\<exists>history text model_id.
      length history \<le> 8 \<and> (\<exists>k. history = last8 (stored w_after_5 k)) \<and>
      Post LM_STUDIO_URL
        (chat_payload cfg_auto (last8 (stored w_after_5 (KStr ''42'')) @ [turn ''user'' ''hi''])
           (JStr ''m1'')) =
      Post LM_STUDIO_URL (chat_payload cfg_auto (history @ [turn ''user'' text]) model_id))"
  using history_sent_is_bounded [OF sixth_request_chat_call] sixth_request_chat_call
    w_after_5_stored
  by (auto simp: last8_def)

subsection \<open>C8: prompt linearization\<close>

text \<open>
  C8, as stated, renders the content of a turn as it is and skips a turn only when its
  content is empty. The code trims the content first: a turn whose content is
  \<^verbatim>\<open>" hi "\<close> is rendered \<^verbatim>\<open>User: hi\<close>, and a turn whose content is a single space is
  skipped.
\<close>

theorem content_not_stripped_counterexample:
  "messages_to_prompt [turn ''user'' '' hi ''] = ''User: hi\<newline>Assistant:'' \<and>
   linearize_spec [turn ''user'' '' hi ''] = ''User:  hi \<newline>Assistant:'' \<and>
   messages_to_prompt [turn ''user'' '' ''] = ''Assistant:'' \<and>
   linearize_spec [turn ''user'' '' ''] = ''User:  \<newline>Assistant:'' \<and>
   messages_to_prompt [turn ''user'' '' hi ''] \<noteq> linearize_spec [turn ''user'' '' hi '']"
  by code_simp

text \<open>
  C8, amended. \<^verbatim>\<open>_messages_to_prompt\<close> is the linearization of the specification applied
  to the turns with their content trimmed of leading and trailing whitespace: it uses at
  most the last 8 turns, renders each turn whose trimmed content is non-empty as
  \<^verbatim>\<open>User: \<close>, \<^verbatim>\<open>Assistant: \<close> or nothing followed by the trimmed content, skips the
  others, joins the lines with newlines, and always ends with the line \<^verbatim>\<open>Assistant:\<close>.
\<close>

theorem messages_to_prompt_linearizes:
  "messages_to_prompt messages = linearize_spec (map strip_content messages) \<and>
   messages_to_prompt messages = messages_to_prompt (last8 messages) \<and>
   (messages_to_prompt messages = ''Assistant:'' \<or>
    (\<exists>body. messages_to_prompt messages = body @ [CHR 0x0A] @ ''Assistant:''))"
proof (intro conjI)
  show "messages_to_prompt messages = linearize_spec (map strip_content messages)"
    by (simp add: messages_to_prompt_def linearize_spec_def prompt_parts_eq last8_map)
  show "messages_to_prompt messages = messages_to_prompt (last8 messages)"
    by (simp add: messages_to_prompt_def last8_idem)
  show "messages_to_prompt messages = ''Assistant:'' \<or>
    (\<exists>body. messages_to_prompt messages = body @ [CHR 0x0A] @ ''Assistant:'')"
    unfolding messages_to_prompt_def join_snoc by auto
qed

subsection \<open>C9: payloads nested under a wrapper key\<close>

text \<open>
  C9, as stated, has every fully wrapped payload rejected whenever an allow-list is
  configured. The sender id of such a payload is the default \<^verbatim>\<open>unknown\<close>, and an
  allow-list that holds that string lets the payload through: here it is answered.
\<close>

theorem wrapped_payload_accepted_counterexample:
  "ALLOWED_JIDS cfg_unknown \<noteq> {} \<and>
   fst (auto_reply cfg_unknown be_ok req_wrapped w_empty) =
     Inr (JObj [(''message'', JStr ''hello there'')], 200)"
  using req_wrapped_accepted by (simp add: cfg_unknown_allows)

text \<open>
  C9, amended. For a payload that is one wrapper key (\<^verbatim>\<open>data\<close> or \<^verbatim>\<open>payload\<close>) holding a
  dict, the sender id is \<^verbatim>\<open>unknown\<close>, the sender name is \<^verbatim>\<open>User\<close>, and the message text
  is the one the probe of the candidate keys finds inside the wrapper; when the
  allow-list is non-empty and does not hold the string \<^verbatim>\<open>unknown\<close>, the payload is
  rejected with the empty reply and the state is unchanged, whatever sender id is
  wrapped.
\<close>

theorem wrapped_payload_sender_unknown:
  assumes "request_data req = JObj [(wrapper, JObj inner)]"
    and "wrapper = ''data'' \<or> wrapper = ''payload''"
  shows "first_truthy (request_data req) [''jid'', ''wa_id'', ''from''] (JStr ''unknown'') =
           Inr (JStr ''unknown'') \<and>
         first_truthy (request_data req) [''name'', ''profile_name'', ''chat_name'']
           (JStr ''User'') = Inr (JStr ''User'') \<and>
         extract_message_text (request_data req) =
           Inr (case probe candidates (JObj inner) of Inr (Some v) \<Rightarrow> v | _ \<Rightarrow> []) \<and>
         (ALLOWED_JIDS cfg \<noteq> {} \<and> ''unknown'' \<notin> ALLOWED_JIDS cfg \<longrightarrow>
            auto_reply cfg be req w = (Inr (JObj [(''message'', JStr [])], 200), w))"
proof (intro conjI impI)
  show s: "first_truthy (request_data req) [''jid'', ''wa_id'', ''from''] (JStr ''unknown'') =
           Inr (JStr ''unknown'')"
    unfolding assms(1) by (rule wrapped_sender(1) [OF assms(2)])
  show n: "first_truthy (request_data req) [''name'', ''profile_name'', ''chat_name'']
           (JStr ''User'') = Inr (JStr ''User'')"
    unfolding assms(1) by (rule wrapped_sender(2) [OF assms(2)])
  show t: "extract_message_text (request_data req) =
           Inr (case probe candidates (JObj inner) of Inr (Some v) \<Rightarrow> v | _ \<Rightarrow> [])"
    unfolding assms(1) by (rule wrapped_text [OF assms(2)])
  assume a: "ALLOWED_JIDS cfg \<noteq> {} \<and> ''unknown'' \<notin> ALLOWED_JIDS cfg"
  then have "(if ALLOWED_JIDS cfg \<noteq> {} then not_in_ALLOWED_JIDS cfg (JStr ''unknown'') else Inr False) =
               Inr True"
    by (simp add: not_in_ALLOWED_JIDS_def)
  then show "auto_reply cfg be req w = (Inr (JObj [(''message'', JStr [])], 200), w)"
    by (simp add: auto_reply_catch auto_reply_try_unfold [OF s n t] reply_def)
qed

theorem wrapped_payload_sender_unknown_witness:
  "request_data req_wrapped =
     JObj [(''data'', JObj [(''jid'', JStr ''42''), (''text'', JStr ''hi'')])] \<and>
   first_truthy (request_data req_wrapped) [''jid'', ''wa_id'', ''from''] (JStr ''unknown'') =
     Inr (JStr ''unknown'') \<and>
   extract_message_text (request_data req_wrapped) = Inr ''hi'' \<and>
   ALLOWED_JIDS cfg_allow \<noteq> {} \<and> ''unknown'' \<notin> ALLOWED_JIDS cfg_allow \<and>
   auto_reply cfg_allow be_ok req_wrapped w_empty =
     (Inr (JObj [(''message'', JStr [])], 200), w_empty)"
proof -
  have a: "ALLOWED_JIDS cfg_allow \<noteq> {} \<and> ''unknown'' \<notin> ALLOWED_JIDS cfg_allow"
    by (simp add: cfg_allow_def cfg_auto_def)
  from wrapped_payload_sender_unknown [OF req_wrapped_data, of cfg_allow be_ok w_empty] a
    req_wrapped_data req_wrapped_inner_text
  show ?thesis by simp
qed

end
